theory Spec2Isabelle
  imports Main "HOL-Library.Word" "HOL-Library.Signed_Division"
begin

section \<open>The UVC webcam coordinator of usb_webcam_main.c\<close>

text \<open>
  The firmware sits between the USB video class driver and the camera sensor library.
  Both libraries are outside the sources. The model therefore
  \<^item> records every call into the sensor library, in order, in the field \<open>calls\<close> of the
    state (a ghost trace: the code has no such variable), and
  \<^item> takes what the library answers during one callback as a parameter, the record
    \<open>camera_lib\<close>.
  Logging is left out, apart from the division that a log statement of
  \<open>camera_start_cb\<close> evaluates.
\<close>

subsection \<open>Machine integers\<close>

text \<open>
  \<open>int\<close> is 32 bits wide on the target and is read through \<open>sint\<close>; \<open>uint32_t\<close> and
  \<open>size_t\<close> are 32 bits wide and read through \<open>uint\<close>.
\<close>

type_synonym c_int = "32 word"
type_synonym uint32_t = "32 word"
type_synonym size_t = "32 word"
type_synonym uint16_t = "16 word"
type_synonym uint8_t = "8 word"

subsection \<open>Types of the two libraries\<close>

text \<open>
  Modelled from the spec: the status codes, the format enum, the pixel format, the frame
  size enum, the product id, the sensor information and the two frame structures are
  declared in esp_err.h, usb_device_uvc.h, esp_camera.h and sensor.h, which are not among
  the sources. Each enumeration has the enumerators that usb_webcam_main.c names as
  constructors, and one more constructor that stands for every enumerator the file does
  not name, carrying its numeric value.
\<close>

datatype esp_err_t = ESP_OK | ESP_ERR_NOT_SUPPORTED | ESP_ERR_other nat

datatype uvc_format_t = UVC_FORMAT_MJPEG | UVC_FORMAT_other nat

datatype pixformat_t = PIXFORMAT_JPEG | PIXFORMAT_other nat

datatype framesize_t =
    FRAMESIZE_QVGA
  | FRAMESIZE_HVGA
  | FRAMESIZE_VGA
  | FRAMESIZE_SVGA
  | FRAMESIZE_HD
  | FRAMESIZE_FHD
  | FRAMESIZE_other nat

text \<open>
  The product id of a sensor, \<open>s->id.PID\<close>, a 16-bit number compared with four macros;
  \<open>PID_other n\<close> is a product id \<open>n\<close> that equals none of the four.
\<close>

datatype sensor_pid = OV3660_PID | OV2640_PID | GC0308_PID | GC032A_PID | PID_other uint16_t

text \<open>What \<open>esp_camera_sensor_get\<close> points to: only the product id is read.\<close>

record sensor_t =
  PID :: sensor_pid

text \<open>What \<open>esp_camera_sensor_get_info\<close> points to (the name is only logged).\<close>

record camera_sensor_info_t =
  support_jpeg :: bool

text \<open>
  A frame buffer of the sensor library. \<open>cam_buf\<close> is the address of the pixel data, the
  format is the numeric value of its enumerator, the timestamp is (tv_sec, tv_usec).
\<close>

record camera_fb_t =
  cam_buf :: nat
  cam_len :: size_t
  cam_width :: size_t
  cam_height :: size_t
  cam_format :: nat
  cam_timestamp :: "int \<times> int"

text \<open>The frame descriptor of the transport, with the same six fields.\<close>

record uvc_fb_t =
  uvc_buf :: nat
  uvc_len :: size_t
  uvc_width :: size_t
  uvc_height :: size_t
  uvc_format :: nat
  uvc_timestamp :: "int \<times> int"

text \<open>
  The \<open>camera_config_t\<close> handed to \<open>esp_camera_init\<close>. The pins, the LEDC timer and
  channel, the grab mode and the buffer location are board constants, the same in every
  call, and are left out.
\<close>

record camera_config_t =
  xclk_freq_hz :: uint32_t
  pixel_format :: pixformat_t
  frame_size :: framesize_t
  jpeg_quality :: c_int
  fb_count :: uint8_t

subsection \<open>Build configuration\<close>

text \<open>The two sdkconfig symbols the file reads; sdkconfig is not among the sources.\<close>

record sdkconfig =
  CONFIG_IDF_TARGET_ESP32S3 :: bool
  CONFIG_CAMERA_XCLK_FREQ :: uint32_t

definition CAMERA_XCLK_FREQ :: "sdkconfig \<Rightarrow> uint32_t" where
  "CAMERA_XCLK_FREQ sdk = CONFIG_CAMERA_XCLK_FREQ sdk"

definition CAMERA_FB_COUNT :: uint8_t where
  "CAMERA_FB_COUNT = 2"

definition UVC_MAX_FRAMESIZE_SIZE :: "sdkconfig \<Rightarrow> size_t" where
  "UVC_MAX_FRAMESIZE_SIZE sdk = (if CONFIG_IDF_TARGET_ESP32S3 sdk then 75 * 1024 else 60 * 1024)"

subsection \<open>The capability table of uvc_frame_config.h\<close>

record uvc_frame_info_t =
  fi_width :: uint16_t
  fi_height :: uint16_t
  fi_rate :: uint8_t
  fi_interval :: uint32_t

definition UVC_FRAMES_INFO :: "uvc_frame_info_t list list" where
  "UVC_FRAMES_INFO =
    [[\<lparr>fi_width = 640, fi_height = 480, fi_rate = 30, fi_interval = 333333\<rparr>,
      \<lparr>fi_width = 320, fi_height = 240, fi_rate = 30, fi_interval = 333333\<rparr>,
      \<lparr>fi_width = 480, fi_height = 320, fi_rate = 30, fi_interval = 333333\<rparr>,
      \<lparr>fi_width = 1280, fi_height = 720, fi_rate = 15, fi_interval = 666666\<rparr>]]"

definition UVC_CONFIG_FORMAT_MJPEG_INDEX :: nat where
  "UVC_CONFIG_FORMAT_MJPEG_INDEX = 0"

subsection \<open>The state of the program\<close>

text \<open>The anonymous structure of \<open>s_uvc_params\<close>.\<close>

record uvc_params_t =
  format :: uvc_format_t
  width :: c_int
  height :: c_int
  frame_rate :: c_int
  frame_interval :: uint32_t

text \<open>
  \<open>fb_t\<close>: a pointer to a sensor frame buffer (\<open>None\<close> is the null pointer, \<open>Some fb\<close>
  a pointer to the buffer \<open>fb\<close>) and the descriptor handed to the transport.
\<close>

record fb_t =
  cam_fb_p :: "camera_fb_t option"
  uvc_fb :: uvc_fb_t

text \<open>
  A \<open>uvc_fb_t *\<close>. The only descriptor the program owns is \<open>s_fb.uvc_fb\<close>, so a pointer
  is null, the address of that descriptor, or some other address.
\<close>

datatype uvc_fb_ptr = NULL | Addr_s_fb_uvc_fb | Addr_other nat

text \<open>The calls into the sensor library, with their arguments.\<close>

datatype hw_call =
    Esp_camera_return_all
  | Esp_camera_deinit
  | Esp_camera_init camera_config_t
  | Esp_camera_sensor_get
  | Esp_camera_sensor_get_info sensor_pid
  | Set_vflip int
  | Set_hmirror int
  | Set_brightness int
  | Set_saturation int
  | Esp_camera_fb_get
  | Esp_camera_fb_return "camera_fb_t option"

text \<open>
  The static variables: the six of \<open>camera_init\<close>, \<open>s_uvc_params\<close> and \<open>s_fb\<close>; and the
  trace of library calls.
\<close>

record state =
  inited :: bool
  cur_xclk_freq_hz :: uint32_t
  cur_pixel_format :: pixformat_t
  cur_frame_size :: framesize_t
  cur_jpeg_quality :: c_int
  cur_fb_count :: uint8_t
  s_uvc_params :: uvc_params_t
  s_fb :: fb_t
  calls :: "hw_call list"

text \<open>
  What the sensor library answers during one callback: the status of \<open>esp_camera_init\<close>,
  the pointers returned by \<open>esp_camera_sensor_get\<close>, \<open>esp_camera_sensor_get_info\<close> and
  \<open>esp_camera_fb_get\<close> (\<open>None\<close> is the null pointer). The setters' results are ignored
  by the code.
\<close>

record camera_lib =
  esp_camera_init_ret :: esp_err_t
  esp_camera_sensor_get_ret :: "sensor_t option"
  esp_camera_sensor_get_info_ret :: "camera_sensor_info_t option"
  esp_camera_fb_get_ret :: "camera_fb_t option"

text \<open>
  The ways a callback ends without returning: an integer division by zero, a failed
  \<open>assert\<close>, a read through a null pointer. Each stops the firmware.
\<close>

datatype abort = DivideByZero | AssertFailed | NullDeref

definition call :: "hw_call \<Rightarrow> state \<Rightarrow> state" where
  "call c st = st\<lparr>calls := calls st @ [c]\<rparr>"

subsection \<open>camera_init\<close>

text \<open>
  Lines 122 to 137: the adjustments made through the sensor handle after a successful
  \<open>esp_camera_init\<close>. The first \<open>set_vflip\<close> is outside every test of the product id.
\<close>

definition sensor_adjust :: "sensor_t \<Rightarrow> state \<Rightarrow> state" where
  "sensor_adjust s st =
    (let st1 = call (Set_vflip 1) st;
         st2 = (if PID s = OV3660_PID
                then call (Set_saturation (- 2)) (call (Set_brightness 1) st1)
                else st1)
     in if PID s = OV3660_PID \<or> PID s = OV2640_PID then call (Set_vflip 1) st2
        else if PID s = GC0308_PID then call (Set_hmirror 0) st2
        else if PID s = GC032A_PID then call (Set_vflip 1) st2
        else st2)"

text \<open>
  Lines 81 to 155: what \<open>camera_init\<close> does once the sensor is not, or no longer,
  initialised.
\<close>

definition camera_init_hw ::
  "camera_lib \<Rightarrow> uint32_t \<Rightarrow> pixformat_t \<Rightarrow> framesize_t \<Rightarrow> c_int \<Rightarrow> uint8_t \<Rightarrow> state
    \<Rightarrow> (abort + esp_err_t) \<times> state" where
  "camera_init_hw lib xclk pixfmt fsize quality fbcount st1 =
    (let camera_config = \<lparr>xclk_freq_hz = xclk, pixel_format = pixfmt, frame_size = fsize,
                          jpeg_quality = quality, fb_count = fbcount\<rparr>;
         st2 = call (Esp_camera_init camera_config) st1;
         ret = esp_camera_init_ret lib
     in if ret \<noteq> ESP_OK then (Inr ret, st2)
        else
          let st3 = call Esp_camera_sensor_get st2
          in case esp_camera_sensor_get_ret lib of
               None \<Rightarrow> (Inl NullDeref, st3)
             | Some s \<Rightarrow>
                 let st4 = sensor_adjust s st3;
                     st5 = call (Esp_camera_sensor_get_info (PID s)) st4
                 in case esp_camera_sensor_get_info_ret lib of
                      None \<Rightarrow> (Inl NullDeref, st5)
                    | Some s_info \<Rightarrow>
                        if ESP_OK = ret \<and> PIXFORMAT_JPEG = pixfmt \<and> support_jpeg s_info
                        then (Inr ret,
                              st5\<lparr>cur_xclk_freq_hz := xclk, cur_pixel_format := pixfmt,
                                  cur_frame_size := fsize, cur_jpeg_quality := quality,
                                  cur_fb_count := fbcount, inited := True\<rparr>)
                        else (Inr ESP_ERR_NOT_SUPPORTED, st5))"

text \<open>Lines 61 to 79, and then the above.\<close>

definition camera_init ::
  "camera_lib \<Rightarrow> uint32_t \<Rightarrow> pixformat_t \<Rightarrow> framesize_t \<Rightarrow> c_int \<Rightarrow> uint8_t \<Rightarrow> state
    \<Rightarrow> (abort + esp_err_t) \<times> state" where
  "camera_init lib xclk pixfmt fsize quality fbcount st =
    (if inited st \<and> cur_xclk_freq_hz st = xclk \<and> cur_pixel_format st = pixfmt
        \<and> cur_frame_size st = fsize \<and> cur_fb_count st = fbcount
        \<and> cur_jpeg_quality st = quality
     then (Inr ESP_OK, st)
     else camera_init_hw lib xclk pixfmt fsize quality fbcount
            (if inited st
             then (call Esp_camera_deinit (call Esp_camera_return_all st))\<lparr>inited := False\<rparr>
             else st))"

subsection \<open>The callbacks\<close>

definition camera_stop_cb :: "state \<Rightarrow> state" where
  "camera_stop_cb st = st"

text \<open>
  \<open>10000000 / rate\<close> on \<open>int\<close>: C division truncates towards zero (\<open>sdiv\<close> on \<open>int\<close>),
  and the quotient is converted to \<open>uint32_t\<close> when it is stored.
\<close>

definition interval_of_rate :: "c_int \<Rightarrow> uint32_t" where
  "interval_of_rate rate = word_of_int (10000000 sdiv sint rate)"

text \<open>
  Lines 190 to 212: the chain that maps a resolution to the frame size and the JPEG
  quality handed to \<open>camera_init\<close>; \<open>None\<close> is the last branch, which returns
  \<open>ESP_ERR_NOT_SUPPORTED\<close>.
\<close>

definition map_resolution :: "c_int \<Rightarrow> c_int \<Rightarrow> (framesize_t \<times> c_int) option" where
  "map_resolution w h =
    (if w = 320 \<and> h = 240 then Some (FRAMESIZE_QVGA, 10)
     else if w = 480 \<and> h = 320 then Some (FRAMESIZE_HVGA, 10)
     else if w = 640 \<and> h = 480 then Some (FRAMESIZE_VGA, 12)
     else if w = 800 \<and> h = 600 then Some (FRAMESIZE_SVGA, 14)
     else if w = 1280 \<and> h = 720 then Some (FRAMESIZE_HD, 16)
     else if w = 1920 \<and> h = 1080 then Some (FRAMESIZE_FHD, 16)
     else None)"

text \<open>
  The log statement of line 172 divides by \<open>rate\<close> before anything is stored, so a rate
  of zero stops the firmware with the state as it was.
\<close>

definition camera_start_cb ::
  "sdkconfig \<Rightarrow> camera_lib \<Rightarrow> uvc_format_t \<Rightarrow> c_int \<Rightarrow> c_int \<Rightarrow> c_int \<Rightarrow> state
    \<Rightarrow> (abort + esp_err_t) \<times> state" where
  "camera_start_cb sdk lib fmt w h rate st =
    (if rate = 0 then (Inl DivideByZero, st)
     else
       let st1 = st\<lparr>s_uvc_params :=
                  \<lparr>format = fmt, width = w, height = h, frame_rate = rate,
                   frame_interval = interval_of_rate rate\<rparr>\<rparr>
       in if fmt \<noteq> UVC_FORMAT_MJPEG then (Inr ESP_ERR_NOT_SUPPORTED, st1)
          else
            case map_resolution w h of
              None \<Rightarrow> (Inr ESP_ERR_NOT_SUPPORTED, st1)
            | Some (fsize, quality) \<Rightarrow>
                (case camera_init lib (CAMERA_XCLK_FREQ sdk) PIXFORMAT_JPEG fsize quality
                        CAMERA_FB_COUNT st1 of
                   (Inl a, st2) \<Rightarrow> (Inl a, st2)
                 | (Inr ret, st2) \<Rightarrow>
                     if ret \<noteq> ESP_OK then (Inr ret, st2) else (Inr ESP_OK, st2)))"

definition camera_fb_get_cb :: "sdkconfig \<Rightarrow> camera_lib \<Rightarrow> state \<Rightarrow> uvc_fb_ptr \<times> state" where
  "camera_fb_get_cb sdk lib st =
    (let st1 = (call Esp_camera_fb_get st)
                 \<lparr>s_fb := (s_fb st)\<lparr>cam_fb_p := esp_camera_fb_get_ret lib\<rparr>\<rparr>
     in case cam_fb_p (s_fb st1) of
          None \<Rightarrow> (NULL, st1)
        | Some fb \<Rightarrow>
            let st2 = st1\<lparr>s_fb := (s_fb st1)\<lparr>uvc_fb :=
                        \<lparr>uvc_buf = cam_buf fb, uvc_len = cam_len fb, uvc_width = cam_width fb,
                         uvc_height = cam_height fb, uvc_format = cam_format fb,
                         uvc_timestamp = cam_timestamp fb\<rparr>\<rparr>\<rparr>
            in if uvc_len (uvc_fb (s_fb st2)) > UVC_MAX_FRAMESIZE_SIZE sdk
               then (NULL, call (Esp_camera_fb_return (cam_fb_p (s_fb st2))) st2)
               else (Addr_s_fb_uvc_fb, st2))"

text \<open>The \<open>assert\<close> is compiled in (the default of the build system).\<close>

definition camera_fb_return_cb :: "uvc_fb_ptr \<Rightarrow> state \<Rightarrow> (abort + unit) \<times> state" where
  "camera_fb_return_cb fb st =
    (if fb = Addr_s_fb_uvc_fb
     then (Inr (), call (Esp_camera_fb_return (cam_fb_p (s_fb st))) st)
     else (Inl AssertFailed, st))"

subsection \<open>Notions used to state the properties\<close>

text \<open>The library calls made between a state and a later one.\<close>

definition new_calls :: "state \<Rightarrow> state \<Rightarrow> hw_call list" where
  "new_calls st st' = drop (length (calls st)) (calls st')"

text \<open>The calls that tear the sensor down or bring it up.\<close>

fun is_lifecycle :: "hw_call \<Rightarrow> bool" where
  "is_lifecycle Esp_camera_return_all = True"
| "is_lifecycle Esp_camera_deinit = True"
| "is_lifecycle (Esp_camera_init c) = True"
| "is_lifecycle c = False"

text \<open>The calls that adjust the sensor through its handle.\<close>

fun is_correction :: "hw_call \<Rightarrow> bool" where
  "is_correction (Set_vflip v) = True"
| "is_correction (Set_hmirror v) = True"
| "is_correction (Set_brightness v) = True"
| "is_correction (Set_saturation v) = True"
| "is_correction c = False"

text \<open>A resolution is advertised when a row of the MJPEG capability table carries it.\<close>

definition frame_advertised :: "c_int \<Rightarrow> c_int \<Rightarrow> bool" where
  "frame_advertised w h =
    list_ex (\<lambda>r. uint (fi_width r) = sint w \<and> uint (fi_height r) = sint h)
      (UVC_FRAMES_INFO ! UVC_CONFIG_FORMAT_MJPEG_INDEX)"

text \<open>The request that a call of \<open>camera_start_cb\<close> stores in \<open>s_uvc_params\<close>.\<close>

definition requested :: "uvc_format_t \<Rightarrow> c_int \<Rightarrow> c_int \<Rightarrow> c_int \<Rightarrow> uvc_params_t" where
  "requested fmt w h rate =
    \<lparr>format = fmt, width = w, height = h, frame_rate = rate,
     frame_interval = interval_of_rate rate\<rparr>"

text \<open>
  The library answers so that an initialisation succeeds: \<open>esp_camera_init\<close> returns
  \<open>ESP_OK\<close>, neither pointer is null and the sensor supports JPEG.
\<close>

definition sensor_ready :: "camera_lib \<Rightarrow> bool" where
  "sensor_ready lib =
    (esp_camera_init_ret lib = ESP_OK \<and> esp_camera_sensor_get_ret lib \<noteq> None \<and>
     (case esp_camera_sensor_get_info_ret lib of None \<Rightarrow> False | Some i \<Rightarrow> support_jpeg i))"

text \<open>
  The adjustments a sensor receives, by product id, as the code makes them: the
  unconditional vertical flip first, then those chosen by the product id.
\<close>

definition corrections :: "sensor_pid \<Rightarrow> hw_call list" where
  "corrections pid =
    (case pid of
       OV3660_PID \<Rightarrow> [Set_vflip 1, Set_brightness 1, Set_saturation (- 2), Set_vflip 1]
     | OV2640_PID \<Rightarrow> [Set_vflip 1, Set_vflip 1]
     | GC0308_PID \<Rightarrow> [Set_vflip 1, Set_hmirror 0]
     | GC032A_PID \<Rightarrow> [Set_vflip 1, Set_vflip 1]
     | PID_other n \<Rightarrow> [Set_vflip 1])"

text \<open>The library calls of \<open>camera_init\<close> that follow \<open>esp_camera_init\<close>.\<close>

definition post_init_calls :: "camera_lib \<Rightarrow> hw_call list" where
  "post_init_calls lib =
    (if esp_camera_init_ret lib \<noteq> ESP_OK then []
     else Esp_camera_sensor_get #
       (case esp_camera_sensor_get_ret lib of
          None \<Rightarrow> []
        | Some s \<Rightarrow> corrections (PID s) @ [Esp_camera_sensor_get_info (PID s)]))"

subsection \<open>Concrete inputs\<close>

text \<open>
  The state after start-up, from the initialisers of the static variables (zero where
  there is none). The enumerators of value 0 of \<open>pixformat_t\<close> and \<open>framesize_t\<close> are
  none of those the file names.
\<close>

definition boot_state :: state where
  "boot_state =
    \<lparr>inited = False, cur_xclk_freq_hz = 0, cur_pixel_format = PIXFORMAT_other 0,
     cur_frame_size = FRAMESIZE_other 0, cur_jpeg_quality = 0, cur_fb_count = 0,
     s_uvc_params = \<lparr>format = UVC_FORMAT_MJPEG, width = 640, height = 480, frame_rate = 30,
                     frame_interval = 333333\<rparr>,
     s_fb = \<lparr>cam_fb_p = None,
             uvc_fb = \<lparr>uvc_buf = 0, uvc_len = 0, uvc_width = 0, uvc_height = 0, uvc_format = 0,
                       uvc_timestamp = (0, 0)\<rparr>\<rparr>,
     calls = []\<rparr>"

text \<open>An ESP32-S3 build with a 20 MHz sensor clock.\<close>

definition sdk_s3 :: sdkconfig where
  "sdk_s3 = \<lparr>CONFIG_IDF_TARGET_ESP32S3 = True, CONFIG_CAMERA_XCLK_FREQ = 20000000\<rparr>"

text \<open>A frame of 20000 bytes and one of 100000 bytes, both 640 by 480.\<close>

definition small_frame :: camera_fb_t where
  "small_frame =
    \<lparr>cam_buf = 4096, cam_len = 20000, cam_width = 640, cam_height = 480, cam_format = 4,
     cam_timestamp = (1, 500)\<rparr>"

definition big_frame :: camera_fb_t where
  "big_frame =
    \<lparr>cam_buf = 8192, cam_len = 100000, cam_width = 640, cam_height = 480, cam_format = 4,
     cam_timestamp = (2, 250)\<rparr>"

text \<open>
  A library whose initialisation succeeds on a sensor with the given product id and the
  given JPEG support, and whose next frame is the given one.
\<close>

definition lib_with :: "sensor_pid \<Rightarrow> bool \<Rightarrow> camera_fb_t option \<Rightarrow> camera_lib" where
  "lib_with pid jpeg fb =
    \<lparr>esp_camera_init_ret = ESP_OK, esp_camera_sensor_get_ret = Some \<lparr>PID = pid\<rparr>,
     esp_camera_sensor_get_info_ret = Some \<lparr>support_jpeg = jpeg\<rparr>,
     esp_camera_fb_get_ret = fb\<rparr>"

text \<open>The state after MJPEG 640x480 at 30 fps was negotiated from start-up on an OV2640.\<close>

definition vga_state :: state where
  "vga_state =
    snd (camera_start_cb sdk_s3 (lib_with OV2640_PID True None) UVC_FORMAT_MJPEG 640 480 30
          boot_state)"

section \<open>Auxiliary facts\<close>

lemmas fixture_defs =
  boot_state_def sdk_s3_def lib_with_def small_frame_def big_frame_def

lemmas start_defs =
  camera_start_cb_def map_resolution_def interval_of_rate_def signed_divide_int_def
  CAMERA_XCLK_FREQ_def CAMERA_FB_COUNT_def requested_def

lemma sensor_adjust_calls:
  "sensor_adjust s st = st\<lparr>calls := calls st @ corrections (PID s)\<rparr>"
  by (cases "PID s") (simp_all add: sensor_adjust_def call_def corrections_def)

lemma quotient_positive_rate:
  assumes "0 < r"
  shows "(10000000::int) sdiv r = 10000000 div r"
    and "0 \<le> (10000000::int) div r" and "(10000000::int) div r \<le> 10000000"
proof -
  show "(10000000::int) sdiv r = 10000000 div r"
    using assms by (simp add: signed_divide_int_def)
  show "0 \<le> (10000000::int) div r"
    using assms by (simp add: pos_imp_zdiv_nonneg_iff)
  show "(10000000::int) div r \<le> 10000000"
    using assms zdiv_mono2 [of 10000000 1 r] by simp
qed

lemma interval_of_positive_rate:
  assumes "0 < sint rate"
  shows "uint (interval_of_rate rate) = 10000000 div sint rate"
proof -
  let ?q = "(10000000::int) div sint rate"
  have "0 \<le> ?q" "?q < 2 ^ 32"
    using quotient_positive_rate(2,3) [OF assms] by simp_all
  then have "?q mod 2 ^ 32 = ?q" by simp
  then show ?thesis
    by (simp add: interval_of_rate_def quotient_positive_rate(1) [OF assms] uint_word_of_int)
qed

lemma map_resolution_None_iff:
  "map_resolution w h = None \<longleftrightarrow>
     (w, h) \<notin> {(320, 240), (480, 320), (640, 480), (800, 600), (1280, 720), (1920, 1080)}"
  by (simp add: map_resolution_def)

text \<open>
  What \<open>camera_init\<close> does to the trace whenever it does not take the early return: the
  teardown if the sensor was initialised, \<open>esp_camera_init\<close>, and what follows it.
\<close>

lemma camera_init_calls:
  assumes "\<not> (inited st \<and> cur_xclk_freq_hz st = xclk \<and> cur_pixel_format st = pixfmt
              \<and> cur_frame_size st = fsize \<and> cur_fb_count st = fbcount
              \<and> cur_jpeg_quality st = quality)"
  shows "calls (snd (camera_init lib xclk pixfmt fsize quality fbcount st)) =
           calls st @ (if inited st then [Esp_camera_return_all, Esp_camera_deinit] else [])
             @ Esp_camera_init \<lparr>xclk_freq_hz = xclk, pixel_format = pixfmt, frame_size = fsize,
                                 jpeg_quality = quality, fb_count = fbcount\<rparr>
             # post_init_calls lib"
  using assms
  by (auto simp add: camera_init_def camera_init_hw_def sensor_adjust_calls call_def post_init_calls_def Let_def
      split: option.splits)

lemma camera_init_keeps_params:
  "s_uvc_params (snd (camera_init lib xclk pixfmt fsize quality fbcount st)) = s_uvc_params st"
  by (simp add: camera_init_def camera_init_hw_def sensor_adjust_calls call_def Let_def split: option.splits)

text \<open>A successful initialisation, in full.\<close>

lemma camera_init_ready:
  assumes "sensor_ready lib"
    and "\<not> (inited st \<and> cur_xclk_freq_hz st = xclk \<and> cur_pixel_format st = PIXFORMAT_JPEG
              \<and> cur_frame_size st = fsize \<and> cur_fb_count st = fbcount
              \<and> cur_jpeg_quality st = quality)"
  shows "camera_init lib xclk PIXFORMAT_JPEG fsize quality fbcount st =
           (Inr ESP_OK,
            st\<lparr>calls := calls st
                   @ (if inited st then [Esp_camera_return_all, Esp_camera_deinit] else [])
                   @ Esp_camera_init \<lparr>xclk_freq_hz = xclk, pixel_format = PIXFORMAT_JPEG,
                        frame_size = fsize, jpeg_quality = quality, fb_count = fbcount\<rparr>
                   # post_init_calls lib,
               cur_xclk_freq_hz := xclk, cur_pixel_format := PIXFORMAT_JPEG,
               cur_frame_size := fsize, cur_jpeg_quality := quality, cur_fb_count := fbcount,
               inited := True\<rparr>)"
  using assms
  by (auto simp add: camera_init_def camera_init_hw_def sensor_adjust_calls call_def post_init_calls_def
      sensor_ready_def Let_def split: option.splits)

lemma lifecycle_post_init_calls: "filter is_lifecycle (post_init_calls lib) = []"
  by (simp add: post_init_calls_def corrections_def split: option.splits sensor_pid.splits)

lemma correction_corrections: "filter is_correction (corrections pid) = corrections pid"
  by (simp add: corrections_def split: sensor_pid.splits)

lemma vga_state_eq:
  "vga_state =
    boot_state\<lparr>calls :=
       [Esp_camera_init \<lparr>xclk_freq_hz = 20000000, pixel_format = PIXFORMAT_JPEG,
          frame_size = FRAMESIZE_VGA, jpeg_quality = 12, fb_count = 2\<rparr>,
        Esp_camera_sensor_get, Set_vflip 1, Set_vflip 1, Esp_camera_sensor_get_info OV2640_PID],
      cur_xclk_freq_hz := 20000000, cur_pixel_format := PIXFORMAT_JPEG,
      cur_frame_size := FRAMESIZE_VGA, cur_jpeg_quality := 12, cur_fb_count := 2,
      inited := True\<rparr>"
  by (simp add: vga_state_def start_defs fixture_defs camera_init_def camera_init_hw_def sensor_adjust_calls
      corrections_def call_def Let_def)

lemma camera_start_cb_mapped:
  assumes "rate \<noteq> 0" and "map_resolution w h = Some (fsize, quality)"
  shows "camera_start_cb sdk lib UVC_FORMAT_MJPEG w h rate st =
           camera_init lib (CAMERA_XCLK_FREQ sdk) PIXFORMAT_JPEG fsize quality CAMERA_FB_COUNT
             (st\<lparr>s_uvc_params := requested UVC_FORMAT_MJPEG w h rate\<rparr>)"
proof -
  let ?st1 = "st\<lparr>s_uvc_params := requested UVC_FORMAT_MJPEG w h rate\<rparr>"
  obtain r st2 where c: "camera_init lib (CAMERA_XCLK_FREQ sdk) PIXFORMAT_JPEG fsize quality
      CAMERA_FB_COUNT ?st1 = (r, st2)"
    by (cases "camera_init lib (CAMERA_XCLK_FREQ sdk) PIXFORMAT_JPEG fsize quality
      CAMERA_FB_COUNT ?st1")
  have "camera_start_cb sdk lib UVC_FORMAT_MJPEG w h rate st = (r, st2)"
    unfolding camera_start_cb_def using assms c
    by (cases r) (simp_all add: requested_def Let_def)
  with c show ?thesis by simp
qed

lemma camera_start_cb_rejected:
  assumes "rate \<noteq> 0" and "fmt \<noteq> UVC_FORMAT_MJPEG \<or> map_resolution w h = None"
  shows "camera_start_cb sdk lib fmt w h rate st =
           (Inr ESP_ERR_NOT_SUPPORTED, st\<lparr>s_uvc_params := requested fmt w h rate\<rparr>)"
  unfolding camera_start_cb_def using assms by (auto simp add: requested_def Let_def)

lemma camera_start_cb_params:
  assumes "rate \<noteq> 0"
  shows "s_uvc_params (snd (camera_start_cb sdk lib fmt w h rate st)) = requested fmt w h rate"
proof (cases "fmt \<noteq> UVC_FORMAT_MJPEG \<or> map_resolution w h = None")
  case True
  then show ?thesis by (simp add: camera_start_cb_rejected [OF assms])
next
  case False
  then obtain fsize quality where "fmt = UVC_FORMAT_MJPEG"
    and "map_resolution w h = Some (fsize, quality)" by auto
  then show ?thesis
    by (simp add: camera_start_cb_mapped [OF assms] camera_init_keeps_params)
qed


lemma camera_init_ready_result:
  assumes "sensor_ready lib"
  shows "fst (camera_init lib xclk PIXFORMAT_JPEG fsize quality fbcount st) = Inr ESP_OK
    \<and> inited (snd (camera_init lib xclk PIXFORMAT_JPEG fsize quality fbcount st))
    \<and> cur_xclk_freq_hz (snd (camera_init lib xclk PIXFORMAT_JPEG fsize quality fbcount st)) = xclk
    \<and> cur_pixel_format (snd (camera_init lib xclk PIXFORMAT_JPEG fsize quality fbcount st))
        = PIXFORMAT_JPEG
    \<and> cur_frame_size (snd (camera_init lib xclk PIXFORMAT_JPEG fsize quality fbcount st)) = fsize
    \<and> cur_jpeg_quality (snd (camera_init lib xclk PIXFORMAT_JPEG fsize quality fbcount st))
        = quality
    \<and> cur_fb_count (snd (camera_init lib xclk PIXFORMAT_JPEG fsize quality fbcount st)) = fbcount"
proof (cases "inited st \<and> cur_xclk_freq_hz st = xclk \<and> cur_pixel_format st = PIXFORMAT_JPEG
              \<and> cur_frame_size st = fsize \<and> cur_fb_count st = fbcount
              \<and> cur_jpeg_quality st = quality")
  case True
  then show ?thesis by (simp add: camera_init_def)
next
  case False
  show ?thesis by (simp add: camera_init_ready [OF assms False])
qed

section \<open>The properties\<close>

subsection \<open>Negotiation\<close>

text \<open>
  C1, as stated: a request whose resolution is in no row of \<open>UVC_FRAMES_INFO\<close> fails as
  unsupported, 1920x1080 at 60 fps among them, and no sensor call is made. The code
  accepts MJPEG 1920x1080 at 60 fps from start-up: the resolution is not advertised, the
  callback returns \<open>ESP_OK\<close> and the sensor is initialised with the FHD frame size.
\<close>

theorem C1_counterexample:
  "\<not> frame_advertised 1920 1080 \<and>
   fst (camera_start_cb sdk_s3 (lib_with OV2640_PID True None) UVC_FORMAT_MJPEG 1920 1080 60
         boot_state) = Inr ESP_OK \<and>
   calls (snd (camera_start_cb sdk_s3 (lib_with OV2640_PID True None) UVC_FORMAT_MJPEG 1920 1080
                60 boot_state)) =
     [Esp_camera_init \<lparr>xclk_freq_hz = 20000000, pixel_format = PIXFORMAT_JPEG,
        frame_size = FRAMESIZE_FHD, jpeg_quality = 16, fb_count = 2\<rparr>,
      Esp_camera_sensor_get, Set_vflip 1, Set_vflip 1, Esp_camera_sensor_get_info OV2640_PID]"
proof -
  have a: "\<not> frame_advertised 1920 1080"
    by (simp add: frame_advertised_def UVC_FRAMES_INFO_def UVC_CONFIG_FORMAT_MJPEG_INDEX_def)
  have m: "map_resolution 1920 1080 = Some (FRAMESIZE_FHD, 16)"
    by (simp add: map_resolution_def)
  have r: "sensor_ready (lib_with OV2640_PID True None)"
    by (simp add: sensor_ready_def lib_with_def)
  have "camera_start_cb sdk_s3 (lib_with OV2640_PID True None) UVC_FORMAT_MJPEG 1920 1080 60
          boot_state =
        camera_init (lib_with OV2640_PID True None) (CAMERA_XCLK_FREQ sdk_s3) PIXFORMAT_JPEG
          FRAMESIZE_FHD 16 CAMERA_FB_COUNT
          (boot_state\<lparr>s_uvc_params := requested UVC_FORMAT_MJPEG 1920 1080 60\<rparr>)"
    by (rule camera_start_cb_mapped [OF _ m]) simp
  also have "\<dots> = (Inr ESP_OK,
      boot_state\<lparr>s_uvc_params := requested UVC_FORMAT_MJPEG 1920 1080 60,
        calls := [Esp_camera_init \<lparr>xclk_freq_hz = 20000000, pixel_format = PIXFORMAT_JPEG,
            frame_size = FRAMESIZE_FHD, jpeg_quality = 16, fb_count = 2\<rparr>,
          Esp_camera_sensor_get, Set_vflip 1, Set_vflip 1,
          Esp_camera_sensor_get_info OV2640_PID],
        cur_xclk_freq_hz := 20000000, cur_pixel_format := PIXFORMAT_JPEG,
        cur_frame_size := FRAMESIZE_FHD, cur_jpeg_quality := 16, cur_fb_count := 2,
        inited := True\<rparr>)"
    by (subst camera_init_ready [OF r])
      (simp_all add: boot_state_def post_init_calls_def lib_with_def corrections_def
        CAMERA_XCLK_FREQ_def CAMERA_FB_COUNT_def sdk_s3_def)
  finally show ?thesis using a by simp
qed

text \<open>
  C1, amended: with a frame rate other than zero, a request whose resolution is none of the
  six that the callback maps (320x240, 480x320, 640x480, 800x600, 1280x720, 1920x1080)
  returns \<open>ESP_ERR_NOT_SUPPORTED\<close>; the state afterwards is the state before with only
  \<open>s_uvc_params\<close> replaced, so no call into the sensor library was made and the cached
  sensor configuration is as it was.
\<close>

theorem C1_unmapped_resolution_rejected:
  assumes "rate \<noteq> 0"
    and "(w, h) \<notin> {(320, 240), (480, 320), (640, 480), (800, 600), (1280, 720), (1920, 1080)}"
  shows "camera_start_cb sdk lib fmt w h rate st =
           (Inr ESP_ERR_NOT_SUPPORTED, st\<lparr>s_uvc_params := requested fmt w h rate\<rparr>)
         \<and> new_calls st (snd (camera_start_cb sdk lib fmt w h rate st)) = []"
proof -
  have none: "map_resolution w h = None"
    using assms(2) map_resolution_None_iff [of w h] by blast
  then show ?thesis
    by (simp add: camera_start_cb_rejected [OF assms(1)] new_calls_def)
qed

theorem C1_unmapped_resolution_rejected_witness:
  "(24::c_int) \<noteq> 0 \<and>
   ((1024::c_int), (768::c_int)) \<notin>
     {(320, 240), (480, 320), (640, 480), (800, 600), (1280, 720), (1920, 1080)} \<and>
   camera_start_cb sdk_s3 (lib_with OV2640_PID True None) UVC_FORMAT_MJPEG 1024 768 24 vga_state =
     (Inr ESP_ERR_NOT_SUPPORTED,
      vga_state\<lparr>s_uvc_params := requested UVC_FORMAT_MJPEG 1024 768 24\<rparr>) \<and>
   new_calls vga_state
     (snd (camera_start_cb sdk_s3 (lib_with OV2640_PID True None) UVC_FORMAT_MJPEG 1024 768 24
            vga_state)) = []"
proof -
  have r: "(24::c_int) \<noteq> 0" by simp
  have s: "((1024::c_int), (768::c_int)) \<notin>
     {(320, 240), (480, 320), (640, 480), (800, 600), (1280, 720), (1920, 1080)}" by simp
  from C1_unmapped_resolution_rejected [OF r s, of sdk_s3 "lib_with OV2640_PID True None"
      UVC_FORMAT_MJPEG vga_state] r s
  show ?thesis by blast
qed

text \<open>
  C2: for a frame rate above zero the stored \<open>frame_interval\<close> is the integer quotient
  10000000 / frame_rate, whatever else the call does; and in every row of the capability
  table the interval is 10000000 / rate, 333333 in the rows of 30 fps and 666666 in the row
  of 15 fps.
\<close>

theorem C2_frame_interval:
  assumes "0 < sint rate"
  shows "uint (frame_interval (s_uvc_params (snd (camera_start_cb sdk lib fmt w h rate st))))
           = 10000000 div sint rate
         \<and> list_all (\<lambda>r. uint (fi_interval r) = 10000000 div uint (fi_rate r))
             (UVC_FRAMES_INFO ! UVC_CONFIG_FORMAT_MJPEG_INDEX)
         \<and> map (\<lambda>r. (fi_rate r, fi_interval r))
             (UVC_FRAMES_INFO ! UVC_CONFIG_FORMAT_MJPEG_INDEX)
             = [(30, 333333), (30, 333333), (30, 333333), (15, 666666)]"
proof -
  from assms have nz: "rate \<noteq> 0" by auto
  have "frame_interval (s_uvc_params (snd (camera_start_cb sdk lib fmt w h rate st)))
          = interval_of_rate rate"
    by (simp add: camera_start_cb_params [OF nz] requested_def)
  then show ?thesis
    using interval_of_positive_rate [OF assms]
    by (simp add: UVC_FRAMES_INFO_def UVC_CONFIG_FORMAT_MJPEG_INDEX_def)
qed

theorem C2_frame_interval_witness:
  "0 < sint (15::c_int) \<and>
   uint (frame_interval (s_uvc_params (snd (camera_start_cb sdk_s3
           (lib_with OV2640_PID True None) UVC_FORMAT_MJPEG 1280 720 15 boot_state)))) = 666666"
proof -
  have p: "0 < sint (15::c_int)" by simp
  from C2_frame_interval [OF p, of sdk_s3 "lib_with OV2640_PID True None" UVC_FORMAT_MJPEG
      1280 720 boot_state] p
  show ?thesis by simp
qed

subsection \<open>Sensor lifecycle\<close>

text \<open>
  C3: when the sensor is initialised and the five arguments equal the five cached values,
  \<open>camera_init\<close> returns \<open>ESP_OK\<close> and the state, the trace of library calls included,
  is the state before: no teardown and no initialisation.
\<close>

theorem C3_camera_init_idempotent:
  assumes "inited st" and "cur_xclk_freq_hz st = xclk" and "cur_pixel_format st = pixfmt"
    and "cur_frame_size st = fsize" and "cur_jpeg_quality st = quality"
    and "cur_fb_count st = fbcount"
  shows "camera_init lib xclk pixfmt fsize quality fbcount st = (Inr ESP_OK, st)
         \<and> new_calls st (snd (camera_init lib xclk pixfmt fsize quality fbcount st)) = []"
  using assms by (simp add: camera_init_def new_calls_def)

theorem C3_camera_init_idempotent_witness:
  "inited vga_state \<and> cur_xclk_freq_hz vga_state = 20000000
   \<and> cur_pixel_format vga_state = PIXFORMAT_JPEG \<and> cur_frame_size vga_state = FRAMESIZE_VGA
   \<and> cur_jpeg_quality vga_state = 12 \<and> cur_fb_count vga_state = 2
   \<and> camera_init (lib_with OV2640_PID True None) 20000000 PIXFORMAT_JPEG FRAMESIZE_VGA 12 2
       vga_state = (Inr ESP_OK, vga_state)
   \<and> new_calls vga_state
       (snd (camera_init (lib_with OV2640_PID True None) 20000000 PIXFORMAT_JPEG FRAMESIZE_VGA
              12 2 vga_state)) = []"
proof -
  have h: "inited vga_state" "cur_xclk_freq_hz vga_state = 20000000"
    "cur_pixel_format vga_state = PIXFORMAT_JPEG" "cur_frame_size vga_state = FRAMESIZE_VGA"
    "cur_jpeg_quality vga_state = 12" "cur_fb_count vga_state = 2"
    by (simp_all add: vga_state_eq)
  from C3_camera_init_idempotent [OF h, of "lib_with OV2640_PID True None"] h
  show ?thesis by blast
qed

text \<open>
  C4: when the sensor is initialised and an argument differs from its cached value,
  \<open>camera_init\<close> behaves as \<open>camera_init\<close> does from the state in which
  \<open>esp_camera_return_all\<close> and then \<open>esp_camera_deinit\<close> were called and \<open>inited\<close> is
  false. The calls it adds to the trace start with \<open>esp_camera_return_all\<close>,
  \<open>esp_camera_deinit\<close>, \<open>esp_camera_init\<close> with the new configuration, and these three
  are all the teardown and initialisation calls among them.
\<close>

theorem C4_reconfigure_teardown_then_init:
  assumes "inited st"
    and "\<not> (cur_xclk_freq_hz st = xclk \<and> cur_pixel_format st = pixfmt
             \<and> cur_frame_size st = fsize \<and> cur_jpeg_quality st = quality
             \<and> cur_fb_count st = fbcount)"
  shows "camera_init lib xclk pixfmt fsize quality fbcount st =
           camera_init lib xclk pixfmt fsize quality fbcount
             (st\<lparr>calls := calls st @ [Esp_camera_return_all, Esp_camera_deinit],
                 inited := False\<rparr>)
         \<and> calls (snd (camera_init lib xclk pixfmt fsize quality fbcount st)) =
             calls st @ new_calls st (snd (camera_init lib xclk pixfmt fsize quality fbcount st))
         \<and> take 3 (new_calls st (snd (camera_init lib xclk pixfmt fsize quality fbcount st))) =
             [Esp_camera_return_all, Esp_camera_deinit,
              Esp_camera_init \<lparr>xclk_freq_hz = xclk, pixel_format = pixfmt, frame_size = fsize,
                               jpeg_quality = quality, fb_count = fbcount\<rparr>]
         \<and> filter is_lifecycle
             (new_calls st (snd (camera_init lib xclk pixfmt fsize quality fbcount st))) =
             [Esp_camera_return_all, Esp_camera_deinit,
              Esp_camera_init \<lparr>xclk_freq_hz = xclk, pixel_format = pixfmt, frame_size = fsize,
                               jpeg_quality = quality, fb_count = fbcount\<rparr>]"
proof -
  let ?cfg = "\<lparr>xclk_freq_hz = xclk, pixel_format = pixfmt, frame_size = fsize,
               jpeg_quality = quality, fb_count = fbcount\<rparr>"
  let ?st' = "snd (camera_init lib xclk pixfmt fsize quality fbcount st)"
  have differs: "\<not> (inited st \<and> cur_xclk_freq_hz st = xclk \<and> cur_pixel_format st = pixfmt
              \<and> cur_frame_size st = fsize \<and> cur_fb_count st = fbcount
              \<and> cur_jpeg_quality st = quality)"
    using assms(2) by blast
  have c: "calls ?st' = calls st @ [Esp_camera_return_all, Esp_camera_deinit]
             @ Esp_camera_init ?cfg # post_init_calls lib"
    using camera_init_calls [OF differs, of lib] assms(1) by simp
  then have n: "new_calls st ?st' =
      [Esp_camera_return_all, Esp_camera_deinit] @ Esp_camera_init ?cfg # post_init_calls lib"
    by (simp add: new_calls_def)
  have first: "camera_init lib xclk pixfmt fsize quality fbcount st =
           camera_init lib xclk pixfmt fsize quality fbcount
             (st\<lparr>calls := calls st @ [Esp_camera_return_all, Esp_camera_deinit],
                 inited := False\<rparr>)"
    using assms(1) differs by (auto simp add: camera_init_def call_def)
  show ?thesis
    using first c n by (simp add: lifecycle_post_init_calls)
qed

theorem C4_reconfigure_teardown_then_init_witness:
  "inited vga_state
   \<and> \<not> (cur_xclk_freq_hz vga_state = 20000000 \<and> cur_pixel_format vga_state = PIXFORMAT_JPEG
         \<and> cur_frame_size vga_state = FRAMESIZE_HD \<and> cur_jpeg_quality vga_state = 16
         \<and> cur_fb_count vga_state = 2)
   \<and> filter is_lifecycle
       (new_calls vga_state
         (snd (camera_init (lib_with OV2640_PID True None) 20000000 PIXFORMAT_JPEG FRAMESIZE_HD
                16 2 vga_state))) =
       [Esp_camera_return_all, Esp_camera_deinit,
        Esp_camera_init \<lparr>xclk_freq_hz = 20000000, pixel_format = PIXFORMAT_JPEG,
          frame_size = FRAMESIZE_HD, jpeg_quality = 16, fb_count = 2\<rparr>]"
proof -
  have a: "inited vga_state" by (simp add: vga_state_eq)
  have b: "\<not> (cur_xclk_freq_hz vga_state = 20000000
         \<and> cur_pixel_format vga_state = PIXFORMAT_JPEG
         \<and> cur_frame_size vga_state = FRAMESIZE_HD \<and> cur_jpeg_quality vga_state = 16
         \<and> cur_fb_count vga_state = 2)"
    by (simp add: vga_state_eq)
  from C4_reconfigure_teardown_then_init [OF a b, of "lib_with OV2640_PID True None"] a b
  show ?thesis by blast
qed

subsection \<open>Frame exchange\<close>

text \<open>
  C5: when the sensor delivers a frame longer than \<open>UVC_MAX_FRAMESIZE_SIZE\<close>,
  \<open>camera_fb_get_cb\<close> returns the null pointer, and its library calls are
  \<open>esp_camera_fb_get\<close> followed by one \<open>esp_camera_fb_return\<close> of that frame; nothing
  stops the firmware.
\<close>

theorem C5_oversized_frame_dropped:
  assumes "esp_camera_fb_get_ret lib = Some fb"
    and "cam_len fb > UVC_MAX_FRAMESIZE_SIZE sdk"
  shows "fst (camera_fb_get_cb sdk lib st) = NULL
         \<and> calls (snd (camera_fb_get_cb sdk lib st)) =
             calls st @ [Esp_camera_fb_get, Esp_camera_fb_return (Some fb)]
         \<and> length (filter (\<lambda>c. c = Esp_camera_fb_return (Some fb))
                     (new_calls st (snd (camera_fb_get_cb sdk lib st)))) = 1"
  using assms by (simp add: camera_fb_get_cb_def call_def new_calls_def Let_def)

theorem C5_oversized_frame_dropped_witness:
  "esp_camera_fb_get_ret (lib_with OV2640_PID True (Some big_frame)) = Some big_frame
   \<and> cam_len big_frame > UVC_MAX_FRAMESIZE_SIZE sdk_s3
   \<and> fst (camera_fb_get_cb sdk_s3 (lib_with OV2640_PID True (Some big_frame)) vga_state) = NULL
   \<and> calls (snd (camera_fb_get_cb sdk_s3 (lib_with OV2640_PID True (Some big_frame))
                   vga_state)) =
       calls vga_state @ [Esp_camera_fb_get, Esp_camera_fb_return (Some big_frame)]"
proof -
  have a: "esp_camera_fb_get_ret (lib_with OV2640_PID True (Some big_frame)) = Some big_frame"
    by (simp add: lib_with_def)
  have b: "cam_len big_frame > UVC_MAX_FRAMESIZE_SIZE sdk_s3"
    by (simp add: big_frame_def UVC_MAX_FRAMESIZE_SIZE_def sdk_s3_def)
  from C5_oversized_frame_dropped [OF a b, of vga_state] a b
  show ?thesis by blast
qed

text \<open>
  C6, as stated: a release with the descriptor that the most recent acquire returned
  succeeds and returns the paired buffer, and a release with any other handle fails the
  assertion before a buffer is returned. The assertion compares the handle with the address
  of \<open>s_fb.uvc_fb\<close> only. After an acquire that dropped an oversized frame and returned
  the null pointer, a release with that address (a stale handle) passes the assertion and
  returns the dropped buffer a second time; and at start-up, before any acquire, it passes
  the assertion and hands the null pointer to \<open>esp_camera_fb_return\<close>.
\<close>

theorem C6_counterexample:
  "fst (camera_fb_get_cb sdk_s3 (lib_with OV2640_PID True (Some big_frame)) vga_state) = NULL
   \<and> fst (camera_fb_return_cb Addr_s_fb_uvc_fb
            (snd (camera_fb_get_cb sdk_s3 (lib_with OV2640_PID True (Some big_frame))
                   vga_state))) = Inr ()
   \<and> calls (snd (camera_fb_return_cb Addr_s_fb_uvc_fb
            (snd (camera_fb_get_cb sdk_s3 (lib_with OV2640_PID True (Some big_frame))
                   vga_state)))) =
       calls vga_state @
         [Esp_camera_fb_get, Esp_camera_fb_return (Some big_frame),
          Esp_camera_fb_return (Some big_frame)]
   \<and> camera_fb_return_cb Addr_s_fb_uvc_fb boot_state =
       (Inr (), boot_state\<lparr>calls := [Esp_camera_fb_return None]\<rparr>)"
  by (simp add: camera_fb_get_cb_def camera_fb_return_cb_def call_def Let_def lib_with_def
      big_frame_def UVC_MAX_FRAMESIZE_SIZE_def sdk_s3_def boot_state_def)

text \<open>
  C6, amended: in every state, a release with the address of \<open>s_fb.uvc_fb\<close>, the only
  descriptor an acquire ever returns, returns normally and makes exactly one library call,
  \<open>esp_camera_fb_return\<close> of the pointer in \<open>s_fb.cam_fb_p\<close>; a release with any other
  handle, the null pointer included, fails the assertion with the state, and so the trace,
  untouched. An acquire stores in \<open>s_fb.cam_fb_p\<close> the pointer the sensor library gave
  it, and returns either the null pointer or that address, the latter only with a buffer
  obtained; so after an acquire that returned a descriptor the buffer released is the
  paired one.
\<close>

theorem C6_release_checks_address:
  "camera_fb_return_cb Addr_s_fb_uvc_fb st =
     (Inr (), st\<lparr>calls := calls st @ [Esp_camera_fb_return (cam_fb_p (s_fb st))]\<rparr>)
   \<and> (\<forall>fb. fb \<noteq> Addr_s_fb_uvc_fb \<longrightarrow> camera_fb_return_cb fb st = (Inl AssertFailed, st))
   \<and> cam_fb_p (s_fb (snd (camera_fb_get_cb sdk lib st0))) = esp_camera_fb_get_ret lib
   \<and> (fst (camera_fb_get_cb sdk lib st0) = NULL
       \<or> fst (camera_fb_get_cb sdk lib st0) = Addr_s_fb_uvc_fb
          \<and> esp_camera_fb_get_ret lib \<noteq> None)"
proof -
  have rel: "camera_fb_return_cb Addr_s_fb_uvc_fb st =
     (Inr (), st\<lparr>calls := calls st @ [Esp_camera_fb_return (cam_fb_p (s_fb st))]\<rparr>)"
    by (simp add: camera_fb_return_cb_def call_def)
  have other: "\<forall>fb. fb \<noteq> Addr_s_fb_uvc_fb \<longrightarrow> camera_fb_return_cb fb st = (Inl AssertFailed, st)"
    by (simp add: camera_fb_return_cb_def)
  have stored: "cam_fb_p (s_fb (snd (camera_fb_get_cb sdk lib st0))) = esp_camera_fb_get_ret lib"
    by (simp add: camera_fb_get_cb_def call_def Let_def split: option.splits)
  have ret: "fst (camera_fb_get_cb sdk lib st0) = NULL
       \<or> fst (camera_fb_get_cb sdk lib st0) = Addr_s_fb_uvc_fb
          \<and> esp_camera_fb_get_ret lib \<noteq> None"
    by (simp add: camera_fb_get_cb_def call_def Let_def split: option.splits)
  from rel other stored ret show ?thesis by blast
qed

theorem C6_release_checks_address_witness:
  "fst (camera_fb_get_cb sdk_s3 (lib_with OV2640_PID True (Some small_frame)) vga_state)
     = Addr_s_fb_uvc_fb
   \<and> calls (snd (camera_fb_return_cb Addr_s_fb_uvc_fb
        (snd (camera_fb_get_cb sdk_s3 (lib_with OV2640_PID True (Some small_frame))
               vga_state)))) =
       calls vga_state @ [Esp_camera_fb_get, Esp_camera_fb_return (Some small_frame)]
   \<and> Addr_other 4096 \<noteq> Addr_s_fb_uvc_fb
   \<and> camera_fb_return_cb (Addr_other 4096)
       (snd (camera_fb_get_cb sdk_s3 (lib_with OV2640_PID True (Some small_frame)) vga_state)) =
       (Inl AssertFailed,
        snd (camera_fb_get_cb sdk_s3 (lib_with OV2640_PID True (Some small_frame)) vga_state))
   \<and> NULL \<noteq> Addr_s_fb_uvc_fb
   \<and> camera_fb_return_cb NULL
       (snd (camera_fb_get_cb sdk_s3 (lib_with OV2640_PID True (Some small_frame)) vga_state)) =
       (Inl AssertFailed,
        snd (camera_fb_get_cb sdk_s3 (lib_with OV2640_PID True (Some small_frame)) vga_state))"
proof -
  let ?lib = "lib_with OV2640_PID True (Some small_frame)"
  let ?st = "snd (camera_fb_get_cb sdk_s3 ?lib vga_state)"
  have got: "fst (camera_fb_get_cb sdk_s3 ?lib vga_state) = Addr_s_fb_uvc_fb"
    and tr: "calls ?st = calls vga_state @ [Esp_camera_fb_get]"
    by (simp_all add: camera_fb_get_cb_def call_def Let_def lib_with_def small_frame_def
        UVC_MAX_FRAMESIZE_SIZE_def sdk_s3_def)
  have l: "esp_camera_fb_get_ret ?lib = Some small_frame" by (simp add: lib_with_def)
  have a: "Addr_other 4096 \<noteq> Addr_s_fb_uvc_fb" and n: "NULL \<noteq> Addr_s_fb_uvc_fb"
    by simp_all
  note t = C6_release_checks_address [of ?st sdk_s3 ?lib vga_state]
  from t have rel: "camera_fb_return_cb Addr_s_fb_uvc_fb ?st =
      (Inr (), ?st\<lparr>calls := calls ?st @ [Esp_camera_fb_return (cam_fb_p (s_fb ?st))]\<rparr>)"
    and oth: "\<forall>fb. fb \<noteq> Addr_s_fb_uvc_fb \<longrightarrow> camera_fb_return_cb fb ?st = (Inl AssertFailed, ?st)"
    and stored: "cam_fb_p (s_fb ?st) = esp_camera_fb_get_ret ?lib"
    by blast+
  have "calls (snd (camera_fb_return_cb Addr_s_fb_uvc_fb ?st)) =
      calls vga_state @ [Esp_camera_fb_get, Esp_camera_fb_return (Some small_frame)]"
    unfolding rel by (simp add: tr stored l)
  with got a n oth show ?thesis by blast
qed

subsection \<open>Initialisation of the sensor\<close>

text \<open>
  C7: in an initialisation attempt (a call that does not return early) in which
  \<open>esp_camera_init\<close> succeeds and the sensor information reports no JPEG support,
  \<open>camera_init\<close> returns \<open>ESP_ERR_NOT_SUPPORTED\<close>, \<open>inited\<close> is false afterwards and none
  of the five cached values was written. A later call for which the library answers well
  then returns \<open>ESP_OK\<close> and leaves the sensor initialised.
\<close>

theorem C7_no_jpeg_support:
  assumes "\<not> (inited st \<and> cur_xclk_freq_hz st = xclk \<and> cur_pixel_format st = pixfmt
              \<and> cur_frame_size st = fsize \<and> cur_fb_count st = fbcount
              \<and> cur_jpeg_quality st = quality)"
    and "esp_camera_init_ret lib = ESP_OK"
    and "esp_camera_sensor_get_ret lib = Some s"
    and "esp_camera_sensor_get_info_ret lib = Some s_info"
    and "\<not> support_jpeg s_info"
  shows "fst (camera_init lib xclk pixfmt fsize quality fbcount st) = Inr ESP_ERR_NOT_SUPPORTED
    \<and> \<not> inited (snd (camera_init lib xclk pixfmt fsize quality fbcount st))
    \<and> cur_xclk_freq_hz (snd (camera_init lib xclk pixfmt fsize quality fbcount st))
        = cur_xclk_freq_hz st
    \<and> cur_pixel_format (snd (camera_init lib xclk pixfmt fsize quality fbcount st))
        = cur_pixel_format st
    \<and> cur_frame_size (snd (camera_init lib xclk pixfmt fsize quality fbcount st))
        = cur_frame_size st
    \<and> cur_jpeg_quality (snd (camera_init lib xclk pixfmt fsize quality fbcount st))
        = cur_jpeg_quality st
    \<and> cur_fb_count (snd (camera_init lib xclk pixfmt fsize quality fbcount st))
        = cur_fb_count st
    \<and> (sensor_ready lib' \<longrightarrow>
         fst (camera_init lib' xclk' PIXFORMAT_JPEG fsize' quality' fbcount'
               (snd (camera_init lib xclk pixfmt fsize quality fbcount st))) = Inr ESP_OK
         \<and> inited (snd (camera_init lib' xclk' PIXFORMAT_JPEG fsize' quality' fbcount'
               (snd (camera_init lib xclk pixfmt fsize quality fbcount st)))))"
proof -
  define r where "r = camera_init lib xclk pixfmt fsize quality fbcount st"
  have eq: "r = (Inr ESP_ERR_NOT_SUPPORTED, st\<lparr>calls := calls (snd r), inited := False\<rparr>)"
    unfolding r_def using assms
    by (auto simp add: camera_init_def camera_init_hw_def sensor_adjust_calls call_def Let_def)
  have f: "fst r = Inr ESP_ERR_NOT_SUPPORTED"
    using eq by (metis fst_conv)
  have s: "snd r = st\<lparr>calls := calls (snd r), inited := False\<rparr>"
    using eq by (metis snd_conv)
  have fields: "\<not> inited (snd r)" "cur_xclk_freq_hz (snd r) = cur_xclk_freq_hz st"
    "cur_pixel_format (snd r) = cur_pixel_format st" "cur_frame_size (snd r) = cur_frame_size st"
    "cur_jpeg_quality (snd r) = cur_jpeg_quality st" "cur_fb_count (snd r) = cur_fb_count st"
    by (subst s, simp)+
  have later: "sensor_ready lib' \<longrightarrow>
         fst (camera_init lib' xclk' PIXFORMAT_JPEG fsize' quality' fbcount' (snd r)) = Inr ESP_OK
         \<and> inited (snd (camera_init lib' xclk' PIXFORMAT_JPEG fsize' quality' fbcount' (snd r)))"
    using camera_init_ready_result [of lib' xclk' fsize' quality' fbcount' "snd r"] by blast
  from f fields later show ?thesis
    unfolding r_def by blast
qed

theorem C7_no_jpeg_support_witness:
  "\<not> inited boot_state
   \<and> esp_camera_init_ret (lib_with GC0308_PID False None) = ESP_OK
   \<and> esp_camera_sensor_get_ret (lib_with GC0308_PID False None) = Some \<lparr>PID = GC0308_PID\<rparr>
   \<and> esp_camera_sensor_get_info_ret (lib_with GC0308_PID False None)
       = Some \<lparr>support_jpeg = False\<rparr>
   \<and> \<not> support_jpeg \<lparr>support_jpeg = False\<rparr>
   \<and> sensor_ready (lib_with OV2640_PID True None)
   \<and> fst (camera_init (lib_with GC0308_PID False None) 20000000 PIXFORMAT_JPEG FRAMESIZE_VGA
            12 2 boot_state) = Inr ESP_ERR_NOT_SUPPORTED
   \<and> \<not> inited (snd (camera_init (lib_with GC0308_PID False None) 20000000 PIXFORMAT_JPEG
                      FRAMESIZE_VGA 12 2 boot_state))
   \<and> fst (camera_init (lib_with OV2640_PID True None) 20000000 PIXFORMAT_JPEG FRAMESIZE_VGA 12 2
           (snd (camera_init (lib_with GC0308_PID False None) 20000000 PIXFORMAT_JPEG
                  FRAMESIZE_VGA 12 2 boot_state))) = Inr ESP_OK"
proof -
  have a: "\<not> (inited boot_state \<and> cur_xclk_freq_hz boot_state = 20000000
      \<and> cur_pixel_format boot_state = PIXFORMAT_JPEG
      \<and> cur_frame_size boot_state = FRAMESIZE_VGA \<and> cur_fb_count boot_state = 2
      \<and> cur_jpeg_quality boot_state = 12)"
    and a': "\<not> inited boot_state"
    by (simp_all add: boot_state_def)
  have b: "esp_camera_init_ret (lib_with GC0308_PID False None) = ESP_OK"
    and c: "esp_camera_sensor_get_ret (lib_with GC0308_PID False None)
      = Some \<lparr>PID = GC0308_PID\<rparr>"
    and d: "esp_camera_sensor_get_info_ret (lib_with GC0308_PID False None)
      = Some \<lparr>support_jpeg = False\<rparr>"
    by (simp_all add: lib_with_def)
  have e: "\<not> support_jpeg \<lparr>support_jpeg = False\<rparr>" by simp
  have g: "sensor_ready (lib_with OV2640_PID True None)"
    by (simp add: sensor_ready_def lib_with_def)
  from C7_no_jpeg_support [OF a b c d e, of "lib_with OV2640_PID True None" 20000000
      FRAMESIZE_VGA 12 2] a' b c d e g
  show ?thesis by blast
qed

text \<open>
  C9, as stated: the adjustments are made only as the product id selects them, a sensor
  with a product id outside the four known ones receiving none and a GC0308 only the
  horizontal mirror. The code flips every sensor vertically before it looks at the product
  id: a sensor with product id 0x5640 receives \<open>set_vflip(1)\<close>, and a GC0308 receives
  \<open>set_vflip(1)\<close> and then \<open>set_hmirror(0)\<close>.
\<close>

theorem C9_counterexample:
  "filter is_correction
     (new_calls boot_state
       (snd (camera_init (lib_with (PID_other 0x5640) True None) 20000000 PIXFORMAT_JPEG
              FRAMESIZE_VGA 12 2 boot_state))) = [Set_vflip 1]
   \<and> filter is_correction
     (new_calls boot_state
       (snd (camera_init (lib_with GC0308_PID True None) 20000000 PIXFORMAT_JPEG
              FRAMESIZE_VGA 12 2 boot_state))) = [Set_vflip 1, Set_hmirror 0]"
  by (simp add: camera_init_def camera_init_hw_def sensor_adjust_calls corrections_def call_def
      new_calls_def Let_def boot_state_def lib_with_def)

text \<open>
  C9, amended: in an initialisation attempt in which \<open>esp_camera_init\<close> succeeds, every
  sensor first receives \<open>set_vflip(1)\<close>, whatever its product id. Then an OV3660 receives
  brightness 1, saturation -2 and \<open>set_vflip(1)\<close> again; an OV2640 \<open>set_vflip(1)\<close> again;
  a GC0308 \<open>set_hmirror(0)\<close>; a GC032A \<open>set_vflip(1)\<close> again; a sensor with any other
  product id nothing more. These are all the adjustments of the call, in this order.
\<close>

theorem C9_sensor_corrections:
  assumes "\<not> (inited st \<and> cur_xclk_freq_hz st = xclk \<and> cur_pixel_format st = pixfmt
              \<and> cur_frame_size st = fsize \<and> cur_fb_count st = fbcount
              \<and> cur_jpeg_quality st = quality)"
    and "esp_camera_init_ret lib = ESP_OK"
    and "esp_camera_sensor_get_ret lib = Some s"
  shows "filter is_correction
           (new_calls st (snd (camera_init lib xclk pixfmt fsize quality fbcount st))) =
         (case PID s of
            OV3660_PID \<Rightarrow> [Set_vflip 1, Set_brightness 1, Set_saturation (- 2), Set_vflip 1]
          | OV2640_PID \<Rightarrow> [Set_vflip 1, Set_vflip 1]
          | GC0308_PID \<Rightarrow> [Set_vflip 1, Set_hmirror 0]
          | GC032A_PID \<Rightarrow> [Set_vflip 1, Set_vflip 1]
          | PID_other n \<Rightarrow> [Set_vflip 1])"
proof -
  have "new_calls st (snd (camera_init lib xclk pixfmt fsize quality fbcount st)) =
      (if inited st then [Esp_camera_return_all, Esp_camera_deinit] else [])
      @ Esp_camera_init \<lparr>xclk_freq_hz = xclk, pixel_format = pixfmt, frame_size = fsize,
                         jpeg_quality = quality, fb_count = fbcount\<rparr>
      # Esp_camera_sensor_get # corrections (PID s) @ [Esp_camera_sensor_get_info (PID s)]"
    using camera_init_calls [OF assms(1), of lib] assms(2,3)
    by (simp add: new_calls_def post_init_calls_def)
  then have "filter is_correction
      (new_calls st (snd (camera_init lib xclk pixfmt fsize quality fbcount st)))
      = corrections (PID s)"
    by (simp add: correction_corrections)
  then show ?thesis by (simp add: corrections_def)
qed

theorem C9_sensor_corrections_witness:
  "\<not> inited boot_state
   \<and> esp_camera_init_ret (lib_with OV3660_PID True None) = ESP_OK
   \<and> esp_camera_sensor_get_ret (lib_with OV3660_PID True None) = Some \<lparr>PID = OV3660_PID\<rparr>
   \<and> filter is_correction
       (new_calls boot_state
         (snd (camera_init (lib_with OV3660_PID True None) 20000000 PIXFORMAT_JPEG FRAMESIZE_VGA
                12 2 boot_state))) =
       [Set_vflip 1, Set_brightness 1, Set_saturation (- 2), Set_vflip 1]"
proof -
  have a: "\<not> (inited boot_state \<and> cur_xclk_freq_hz boot_state = 20000000
      \<and> cur_pixel_format boot_state = PIXFORMAT_JPEG
      \<and> cur_frame_size boot_state = FRAMESIZE_VGA \<and> cur_fb_count boot_state = 2
      \<and> cur_jpeg_quality boot_state = 12)"
    and a': "\<not> inited boot_state"
    by (simp_all add: boot_state_def)
  have b: "esp_camera_init_ret (lib_with OV3660_PID True None) = ESP_OK"
    and c: "esp_camera_sensor_get_ret (lib_with OV3660_PID True None)
      = Some \<lparr>PID = OV3660_PID\<rparr>"
    by (simp_all add: lib_with_def)
  from C9_sensor_corrections [OF a b c] a' b c
  show ?thesis by simp
qed

subsection \<open>Two negotiations in a row\<close>

text \<open>
  C8: with a library that answers well, negotiating MJPEG 640x480 at 30 fps returns
  \<open>ESP_OK\<close> with \<open>frame_interval\<close> 333333 and the sensor initialised with frame size VGA
  and JPEG quality 12; negotiating MJPEG 1280x720 at 15 fps next returns \<open>ESP_OK\<close> with
  \<open>frame_interval\<close> 666666, frame size HD and quality 16, and its teardown and
  initialisation calls are \<open>esp_camera_return_all\<close>, \<open>esp_camera_deinit\<close> and
  \<open>esp_camera_init\<close> with the HD configuration, once each and in this order.
\<close>

theorem C8_vga_then_hd:
  fixes sdk :: sdkconfig and lib1 lib2 :: camera_lib and st0 :: state
  assumes "sensor_ready lib1" and "sensor_ready lib2"
  defines "r1 \<equiv> camera_start_cb sdk lib1 UVC_FORMAT_MJPEG 640 480 30 st0"
  defines "r2 \<equiv> camera_start_cb sdk lib2 UVC_FORMAT_MJPEG 1280 720 15 (snd r1)"
  shows "fst r1 = Inr ESP_OK
    \<and> frame_interval (s_uvc_params (snd r1)) = 333333
    \<and> inited (snd r1) \<and> cur_frame_size (snd r1) = FRAMESIZE_VGA
    \<and> cur_jpeg_quality (snd r1) = 12
    \<and> fst r2 = Inr ESP_OK
    \<and> frame_interval (s_uvc_params (snd r2)) = 666666
    \<and> inited (snd r2) \<and> cur_frame_size (snd r2) = FRAMESIZE_HD
    \<and> cur_jpeg_quality (snd r2) = 16
    \<and> filter is_lifecycle (new_calls (snd r1) (snd r2)) =
        [Esp_camera_return_all, Esp_camera_deinit,
         Esp_camera_init \<lparr>xclk_freq_hz = CAMERA_XCLK_FREQ sdk, pixel_format = PIXFORMAT_JPEG,
           frame_size = FRAMESIZE_HD, jpeg_quality = 16, fb_count = CAMERA_FB_COUNT\<rparr>]"
proof -
  let ?p1 = "requested UVC_FORMAT_MJPEG 640 480 30"
  let ?p2 = "requested UVC_FORMAT_MJPEG 1280 720 15"
  have m1: "map_resolution 640 480 = Some (FRAMESIZE_VGA, 12)"
    and m2: "map_resolution 1280 720 = Some (FRAMESIZE_HD, 16)"
    by (simp_all add: map_resolution_def)
  have e1: "r1 = camera_init lib1 (CAMERA_XCLK_FREQ sdk) PIXFORMAT_JPEG FRAMESIZE_VGA 12
      CAMERA_FB_COUNT (st0\<lparr>s_uvc_params := ?p1\<rparr>)"
    unfolding r1_def by (rule camera_start_cb_mapped [OF _ m1]) simp
  have e2: "r2 = camera_init lib2 (CAMERA_XCLK_FREQ sdk) PIXFORMAT_JPEG FRAMESIZE_HD 16
      CAMERA_FB_COUNT ((snd r1)\<lparr>s_uvc_params := ?p2\<rparr>)"
    unfolding r2_def by (rule camera_start_cb_mapped [OF _ m2]) simp
  have i1: "frame_interval (s_uvc_params (snd r1)) = 333333"
    unfolding e1 by (simp add: camera_init_keeps_params requested_def interval_of_rate_def
        signed_divide_int_def)
  have i2: "frame_interval (s_uvc_params (snd r2)) = 666666"
    unfolding e2 by (simp add: camera_init_keeps_params requested_def interval_of_rate_def
        signed_divide_int_def)
  note c1 = camera_init_ready_result [OF assms(1), of "CAMERA_XCLK_FREQ sdk" FRAMESIZE_VGA 12
      CAMERA_FB_COUNT "st0\<lparr>s_uvc_params := ?p1\<rparr>", folded e1]
  note c2 = camera_init_ready_result [OF assms(2), of "CAMERA_XCLK_FREQ sdk" FRAMESIZE_HD 16
      CAMERA_FB_COUNT "(snd r1)\<lparr>s_uvc_params := ?p2\<rparr>", folded e2]
  let ?st1 = "(snd r1)\<lparr>s_uvc_params := ?p2\<rparr>"
  have differs: "\<not> (inited ?st1 \<and> cur_xclk_freq_hz ?st1 = CAMERA_XCLK_FREQ sdk
      \<and> cur_pixel_format ?st1 = PIXFORMAT_JPEG \<and> cur_frame_size ?st1 = FRAMESIZE_HD
      \<and> cur_fb_count ?st1 = CAMERA_FB_COUNT \<and> cur_jpeg_quality ?st1 = 16)"
    using c1 by simp
  have "calls (snd r2) = calls (snd r1) @ [Esp_camera_return_all, Esp_camera_deinit]
      @ Esp_camera_init \<lparr>xclk_freq_hz = CAMERA_XCLK_FREQ sdk, pixel_format = PIXFORMAT_JPEG,
           frame_size = FRAMESIZE_HD, jpeg_quality = 16, fb_count = CAMERA_FB_COUNT\<rparr>
      # post_init_calls lib2"
    unfolding e2 using camera_init_calls [OF differs, of lib2] c1 by simp
  then have t: "filter is_lifecycle (new_calls (snd r1) (snd r2)) =
        [Esp_camera_return_all, Esp_camera_deinit,
         Esp_camera_init \<lparr>xclk_freq_hz = CAMERA_XCLK_FREQ sdk, pixel_format = PIXFORMAT_JPEG,
           frame_size = FRAMESIZE_HD, jpeg_quality = 16, fb_count = CAMERA_FB_COUNT\<rparr>]"
    by (simp add: new_calls_def lifecycle_post_init_calls)
  from c1 c2 i1 i2 t show ?thesis by blast
qed

theorem C8_vga_then_hd_witness:
  "sensor_ready (lib_with OV2640_PID True None)
   \<and> fst (camera_start_cb sdk_s3 (lib_with OV2640_PID True None) UVC_FORMAT_MJPEG 640 480 30
           boot_state) = Inr ESP_OK
   \<and> frame_interval (s_uvc_params vga_state) = 333333
   \<and> cur_frame_size vga_state = FRAMESIZE_VGA \<and> cur_jpeg_quality vga_state = 12
   \<and> fst (camera_start_cb sdk_s3 (lib_with OV2640_PID True None) UVC_FORMAT_MJPEG 1280 720 15
           vga_state) = Inr ESP_OK
   \<and> frame_interval (s_uvc_params (snd (camera_start_cb sdk_s3 (lib_with OV2640_PID True None)
        UVC_FORMAT_MJPEG 1280 720 15 vga_state))) = 666666
   \<and> cur_frame_size (snd (camera_start_cb sdk_s3 (lib_with OV2640_PID True None)
        UVC_FORMAT_MJPEG 1280 720 15 vga_state)) = FRAMESIZE_HD
   \<and> cur_jpeg_quality (snd (camera_start_cb sdk_s3 (lib_with OV2640_PID True None)
        UVC_FORMAT_MJPEG 1280 720 15 vga_state)) = 16
   \<and> filter is_lifecycle (new_calls vga_state (snd (camera_start_cb sdk_s3
        (lib_with OV2640_PID True None) UVC_FORMAT_MJPEG 1280 720 15 vga_state))) =
        [Esp_camera_return_all, Esp_camera_deinit,
         Esp_camera_init \<lparr>xclk_freq_hz = CAMERA_XCLK_FREQ sdk_s3, pixel_format = PIXFORMAT_JPEG,
           frame_size = FRAMESIZE_HD, jpeg_quality = 16, fb_count = CAMERA_FB_COUNT\<rparr>]"
proof -
  have g: "sensor_ready (lib_with OV2640_PID True None)"
    by (simp add: sensor_ready_def lib_with_def)
  from C8_vga_then_hd [OF g g, where sdk = sdk_s3 and ?st0.0 = boot_state] g
  show ?thesis unfolding vga_state_def by blast
qed

subsection \<open>The negotiated parameters after a rejected request\<close>

text \<open>
  C10: a call of \<open>camera_start_cb\<close> with a frame rate other than zero leaves in
  \<open>s_uvc_params\<close> the requested format, width, height and frame rate and the interval
  derived from the rate, however the call ends. In particular, when the format is not MJPEG
  or the resolution is not mapped, the call returns \<open>ESP_ERR_NOT_SUPPORTED\<close> and the state
  is the state before with \<open>s_uvc_params\<close> replaced by the rejected request.
\<close>

theorem C10_params_overwritten_before_validation:
  assumes "rate \<noteq> 0"
  shows "s_uvc_params (snd (camera_start_cb sdk lib fmt w h rate st)) = requested fmt w h rate
    \<and> (fmt \<noteq> UVC_FORMAT_MJPEG \<or> map_resolution w h = None \<longrightarrow>
         camera_start_cb sdk lib fmt w h rate st =
           (Inr ESP_ERR_NOT_SUPPORTED, st\<lparr>s_uvc_params := requested fmt w h rate\<rparr>))"
  using camera_start_cb_params [OF assms] camera_start_cb_rejected [OF assms] by blast

theorem C10_params_overwritten_before_validation_witness:
  "(30::c_int) \<noteq> 0 \<and> UVC_FORMAT_other 2 \<noteq> UVC_FORMAT_MJPEG
   \<and> s_uvc_params vga_state =
       \<lparr>format = UVC_FORMAT_MJPEG, width = 640, height = 480, frame_rate = 30,
        frame_interval = 333333\<rparr>
   \<and> camera_start_cb sdk_s3 (lib_with OV2640_PID True None) (UVC_FORMAT_other 2) 1280 720 30
       vga_state =
       (Inr ESP_ERR_NOT_SUPPORTED,
        vga_state\<lparr>s_uvc_params :=
          \<lparr>format = UVC_FORMAT_other 2, width = 1280, height = 720, frame_rate = 30,
           frame_interval = 333333\<rparr>\<rparr>)"
proof -
  have r: "(30::c_int) \<noteq> 0" by simp
  have f: "UVC_FORMAT_other 2 \<noteq> UVC_FORMAT_MJPEG" by simp
  have p: "s_uvc_params vga_state =
       \<lparr>format = UVC_FORMAT_MJPEG, width = 640, height = 480, frame_rate = 30,
        frame_interval = 333333\<rparr>"
    by (simp add: vga_state_eq boot_state_def)
  have q: "requested (UVC_FORMAT_other 2) 1280 720 30 =
      \<lparr>format = UVC_FORMAT_other 2, width = 1280, height = 720, frame_rate = 30,
       frame_interval = 333333\<rparr>"
    by (simp add: requested_def interval_of_rate_def signed_divide_int_def)
  from C10_params_overwritten_before_validation [OF r, of sdk_s3
      "lib_with OV2640_PID True None" "UVC_FORMAT_other 2" 1280 720 vga_state] r f p
  show ?thesis unfolding q by blast
qed

end
